theory Spec2Isabelle
  imports
    Main
    "HOL-Library.Word"
    "HOL-Library.Char_ord"
    "HOL-Library.List_Lexorder"
    "HOL-Library.Signed_Division"
    "HOL-Library.Multiset"
begin

section \<open>The root multi-store: data model\<close>

text \<open>
  The development embeds the root multi-store of the repository (package
  \<^verbatim>\<open>rootmulti\<close>) and the cache multi-store (package \<^verbatim>\<open>cachemulti\<close>).
  Go's \<^verbatim>\<open>int64\<close> and \<^verbatim>\<open>uint64\<close> are 64-bit words; a signed reading is taken
  with \<open>sint\<close> or \<open><s\<close>, exactly where the source compares or divides \<^verbatim>\<open>int64\<close>
  values. Go strings are compared bytewise, which is the lexicographic order of
  \<open>char list\<close>.
\<close>

type_synonym int64 = "64 word"
type_synonym uint64 = "64 word"
type_synonym int32 = "32 word"
type_synonym int8 = "8 word"
type_synonym bytes = "8 word list"

datatype StoreType =
  StoreTypeMulti | StoreTypeDB | StoreTypeIAVL | StoreTypeTransient | StoreTypeMemory

text \<open>
  A \<^verbatim>\<open>StoreKey\<close> has pointer identity and a name: two keys with the same name
  and different identity are different keys.
\<close>

datatype StoreKey = StoreKey (keyId: nat) (Name: string)

record CommitID =
  Version :: int64
  Hash :: bytes

record StoreInfo =
  siName :: string
  siCommitId :: CommitID

record CommitInfo =
  ciVersion :: int64
  StoreInfos :: "StoreInfo list"

text \<open>
  The dynamic Go type of a mounted sub-store, as the type switch of \<^verbatim>\<open>Snapshot\<close>
  and the assertions \<^verbatim>\<open>store.(*iavl.Store)\<close> see it after the inter-block cache
  has been unwrapped.
\<close>

datatype GoType = IavlStorePtr | TransientStorePtr | MemStorePtr | OtherGoType

subsection \<open>Errors\<close>

text \<open>
  An error is one of the registered errors of the error package, the error of
  the tree for a missing version, an error made from a message
  (\<^verbatim>\<open>errors.New\<close>, \<^verbatim>\<open>fmt.Errorf\<close>, or any error of a collaborator), or an error
  wrapped with a message. \<open>Cause\<close> is \<^verbatim>\<open>errors.Cause\<close>: the innermost error.
  A panic is a message.
\<close>

datatype Error =
  ErrLogic | ErrUnknownRequest | ErrInvalidRequest
| ErrVersionDoesNotExist
| ErrorString string
| Wrap Error string

fun Cause :: "Error \<Rightarrow> Error" where
  "Cause (Wrap e msg) = Cause e"
| "Cause e = e"

type_synonym Panic = string

subsection \<open>Numbers\<close>

text \<open>
  Go's \<^verbatim>\<open>%\<close> on \<^verbatim>\<open>int64\<close> truncates towards zero (\<open>smod\<close> on the signed values);
  \<^verbatim>\<open>%d\<close> renders a number in decimal.
\<close>

definition int64_rem :: "int64 \<Rightarrow> int64 \<Rightarrow> int64" where
  "int64_rem a b = word_of_int (sint a smod sint b)"

fun fmt_nat :: "nat \<Rightarrow> string" where
  "fmt_nat n =
     (if n < 10 then [char_of (48 + n)]
      else fmt_nat (n div 10) @ [char_of (48 + n mod 10)])"

definition fmt_int64 :: "int64 \<Rightarrow> string" where
  "fmt_int64 v = (if sint v < 0 then ''-'' @ fmt_nat (nat (- sint v)) else fmt_nat (nat (sint v)))"

definition fmt_uint64 :: "uint64 \<Rightarrow> string" where
  "fmt_uint64 v = fmt_nat (unat v)"

subsection \<open>Nodes, snapshot items, queries\<close>

text \<open>
  A byte slice that can be nil is a \<open>bytes option\<close>. \<^verbatim>\<open>ExportNode\<close> is the node of
  the tree's exporter and importer; a \<^verbatim>\<open>SnapshotItem\<close> holds a store item, a node
  item, or any other item.
\<close>

record ExportNode =
  enKey :: "bytes option"
  enValue :: "bytes option"
  enHeight :: int8
  enVersion :: int64

record SnapshotIAVLItem =
  itKey :: "bytes option"
  itValue :: "bytes option"
  itHeight :: int32
  itVersion :: int64

datatype SnapshotItem =
  NoItem
| SnapshotItem_Store string
| SnapshotItem_IAVL SnapshotIAVLItem
| SnapshotItem_Other bytes

text \<open>An exporter yields its nodes and then \<^verbatim>\<open>ExportDone\<close> or an error.\<close>

datatype ExportEnd = ExportDone | ExportFailed Error

record ProofOp =
  poType :: string
  poKey :: bytes
  poData :: bytes

record RequestQuery =
  rqPath :: string
  rqData :: bytes
  rqHeight :: int64
  rqProve :: bool

text \<open>
  In a response, \<open>rsError\<close> stands for the code, codespace and log that
  \<^verbatim>\<open>sdkerrors.QueryResult\<close> sets from an error; \<open>rsProofOps\<close> is the pointer
  \<^verbatim>\<open>res.ProofOps\<close>, \<open>None\<close> when nil.
\<close>

record ResponseQuery =
  rsError :: "Error option"
  rsHeight :: int64
  rsKey :: bytes
  rsValue :: bytes
  rsProofOps :: "ProofOp list option"

definition QueryResult :: "Error \<Rightarrow> ResponseQuery" where
  "QueryResult err = \<lparr>rsError = Some err, rsHeight = 0, rsKey = [], rsValue = [], rsProofOps = None\<rparr>"

subsection \<open>Collaborators\<close>

text \<open>
  The sub-stores are external collaborators: the multi-store only calls their
  methods. A sub-store is a value of an arbitrary type \<open>'s\<close>, and the methods the
  source calls are the fields of the record below. A method that changes the
  store returns the store as the call leaves it.
  \<^item> \<open>GetStoreType\<close> is \<^verbatim>\<open>store.GetStoreType()\<close>; \<open>DynType\<close> is the dynamic Go type
    of \<^verbatim>\<open>rs.GetCommitKVStore(key)\<close>, the store without its inter-block cache.
  \<^item> \<open>StoreCommit\<close> is \<^verbatim>\<open>store.Commit(bumpVersion)\<close>, \<open>StoreLastCommitID\<close> is
    \<^verbatim>\<open>store.LastCommitID()\<close>.
  \<^item> \<open>DeleteVersions\<close> is \<^verbatim>\<open>DeleteVersions(heights...)\<close> of the tree store: its
    error, if any, and the store.
  \<^item> \<open>StoreExport\<close> is \<^verbatim>\<open>Export(height)\<close>: an error, or the nodes the exporter
    yields and how it ends.
  \<^item> An importer is the list of the nodes added to it so far. \<open>ImportOpen\<close> is
    \<^verbatim>\<open>Import(height)\<close> (its error, if any), \<open>ImportAdd\<close> the error, if any, of
    \<^verbatim>\<open>importer.Add(node)\<close> after the nodes added before, \<open>ImportCommit\<close> is
    \<^verbatim>\<open>importer.Commit()\<close>: an error, or the store with the nodes imported.
  \<^item> \<open>AsQueryable\<close> is the assertion \<^verbatim>\<open>store.(types.Queryable)\<close>: the store's
    \<^verbatim>\<open>Query\<close> method when it has one.
\<close>

record 's SubStoreOps =
  GetStoreType :: "'s \<Rightarrow> StoreType"
  DynType :: "'s \<Rightarrow> GoType"
  StoreCommit :: "bool \<Rightarrow> 's \<Rightarrow> CommitID \<times> 's"
  StoreLastCommitID :: "'s \<Rightarrow> CommitID"
  DeleteVersions :: "int64 list \<Rightarrow> 's \<Rightarrow> Error option \<times> 's"
  StoreExport :: "'s \<Rightarrow> int64 \<Rightarrow> Error + (ExportNode list \<times> ExportEnd)"
  ImportOpen :: "'s \<Rightarrow> int64 \<Rightarrow> Error option"
  ImportAdd :: "ExportNode list \<Rightarrow> ExportNode \<Rightarrow> Error option"
  ImportCommit :: "'s \<Rightarrow> int64 \<Rightarrow> ExportNode list \<Rightarrow> Error + 's"
  AsQueryable :: "'s \<Rightarrow> (RequestQuery \<Rightarrow> ResponseQuery) option"

text \<open>
  The functions of other packages that work on the metadata: the protobuf codec
  of \<^verbatim>\<open>CommitInfo\<close> and of the latest version (\<open>None\<close> is an error of
  marshalling), the hash and the proof operation of a \<^verbatim>\<open>CommitInfo\<close>, and
  \<^verbatim>\<open>RequireProof\<close>.
\<close>

record Codec =
  MarshalCommitInfo :: "CommitInfo \<Rightarrow> bytes option"
  UnmarshalCommitInfo :: "bytes \<Rightarrow> Error + CommitInfo"
  StdInt64Marshal :: "int64 \<Rightarrow> bytes option"
  StdInt64Unmarshal :: "bytes \<Rightarrow> int64 option"
  CommitInfoHash :: "CommitInfo \<Rightarrow> bytes"
  CommitInfoProofOp :: "CommitInfo \<Rightarrow> string \<Rightarrow> ProofOp"
  RequireProof :: "string \<Rightarrow> bool"

text \<open>
  A Go map \<^verbatim>\<open>map[types.StoreKey]V\<close> is an association list with pairwise
  different keys. The order of the list is the order in which a \<^verbatim>\<open>range\<close>
  statement visits the map; Go leaves that order open, so a statement about the
  code holds for every order of the list.
\<close>

type_synonym 's StoreMap = "(StoreKey \<times> 's) list"

subsection \<open>The database and the store\<close>

text \<open>
  The keys of the metadata in the database are \<^verbatim>\<open>s/latest\<close>, \<^verbatim>\<open>s/pruneheights\<close>
  and \<^verbatim>\<open>s/<version>\<close>; every other key of the database is a \<open>RawKey\<close>. A read of
  the database can fail, and so can the synchronous write of a batch.
\<close>

datatype DBKey = latestVersionKey | pruneHeightsKey | commitInfoKey int64 | RawKey bytes

record DB =
  dbData :: "DBKey \<Rightarrow> bytes option"
  dbGetErr :: "DBKey \<Rightarrow> Error option"
  dbWriteSyncErr :: bool

text \<open>
  \<^verbatim>\<open>PruningOptions\<close>: the three fields are \<^verbatim>\<open>uint64\<close>, and the source converts
  them to \<^verbatim>\<open>int64\<close> where it uses them with heights.
\<close>

record PruningOptions =
  KeepRecent :: uint64
  KeepEvery :: uint64
  Interval :: uint64

text \<open>
  The fields of \<^verbatim>\<open>Store\<close> that the modelled methods read or write.
  \<open>lastCommitInfo\<close> is a pointer, \<open>None\<close> when nil.
\<close>

record 's Store =
  db :: DB
  lastCommitInfo :: "CommitInfo option"
  pruningOpts :: PruningOptions
  stores :: "'s StoreMap"
  keysByName :: "(string \<times> StoreKey) list"
  pruneHeights :: "int64 list"
  initialVersion :: int64
  earliestVersion :: int64

section \<open>Building the commit info\<close>

text \<open>
  \<^verbatim>\<open>commitStores\<close> ranges over the map, commits every store, and appends a
  \<^verbatim>\<open>StoreInfo\<close> for every store whose type is not \<^verbatim>\<open>StoreTypeTransient\<close>. The
  second component of the result is the map with the committed stores.
\<close>

fun commitStoresLoop ::
  "'s SubStoreOps \<Rightarrow> bool \<Rightarrow> 's StoreMap \<Rightarrow> StoreInfo list \<Rightarrow> StoreInfo list \<times> 's StoreMap" where
  "commitStoresLoop E bumpVersion [] storeInfos = (storeInfos, [])"
| "commitStoresLoop E bumpVersion ((key, store) # rest) storeInfos =
     (let (commitID, store') = StoreCommit E bumpVersion store;
          storeInfos' =
            (if GetStoreType E store' = StoreTypeTransient then storeInfos
             else storeInfos @ [\<lparr>siName = Name key, siCommitId = commitID\<rparr>]);
          (infos, rest') = commitStoresLoop E bumpVersion rest storeInfos'
      in (infos, (key, store') # rest'))"

definition commitStores ::
  "'s SubStoreOps \<Rightarrow> int64 \<Rightarrow> 's StoreMap \<Rightarrow> bool \<Rightarrow> CommitInfo \<times> 's StoreMap" where
  "commitStores E version storeMap bumpVersion =
     (let (storeInfos, storeMap') = commitStoresLoop E bumpVersion storeMap []
      in (\<lparr>ciVersion = version, StoreInfos = storeInfos\<rparr>, storeMap'))"

text \<open>
  \<^verbatim>\<open>keysForStoreKeyMap\<close> collects the keys and sorts them with \<^verbatim>\<open>sort.Slice\<close> on
  \<^verbatim>\<open>ki.Name() < kj.Name()\<close>. \<^verbatim>\<open>sort.Slice\<close> is not stable; the insertion sort
  \<open>sort_key\<close> returns the same list whenever the names are pairwise different,
  which \<^verbatim>\<open>MountStoreWithDB\<close> enforces.
\<close>

definition keysForStoreKeyMap :: "(StoreKey \<times> 'v) list \<Rightarrow> StoreKey list" where
  "keysForStoreKeyMap m = sort_key Name (map fst m)"

text \<open>
  \<^verbatim>\<open>buildCommitInfo\<close> visits the sorted keys, reads \<^verbatim>\<open>rs.stores[key]\<close> and skips
  the transient stores. A key that is not in the map would give a nil store and
  a nil dereference: the result \<open>None\<close>.
\<close>

fun buildStoreInfos ::
  "'s SubStoreOps \<Rightarrow> 's StoreMap \<Rightarrow> StoreKey list \<Rightarrow> StoreInfo list \<Rightarrow> StoreInfo list option" where
  "buildStoreInfos E storeMap [] storeInfos = Some storeInfos"
| "buildStoreInfos E storeMap (key # keys) storeInfos =
     (case map_of storeMap key of
        None \<Rightarrow> None
      | Some store \<Rightarrow>
          if GetStoreType E store = StoreTypeTransient
          then buildStoreInfos E storeMap keys storeInfos
          else buildStoreInfos E storeMap keys
                 (storeInfos @ [\<lparr>siName = Name key, siCommitId = StoreLastCommitID E store\<rparr>]))"

definition buildCommitInfo :: "'s SubStoreOps \<Rightarrow> 's StoreMap \<Rightarrow> int64 \<Rightarrow> CommitInfo option" where
  "buildCommitInfo E storeMap version =
     (case buildStoreInfos E storeMap (keysForStoreKeyMap storeMap) [] of
        None \<Rightarrow> None
      | Some storeInfos \<Rightarrow> Some \<lparr>ciVersion = version, StoreInfos = storeInfos\<rparr>)"

section \<open>Metadata\<close>

text \<open>
  A batch is the list of its \<^verbatim>\<open>Set\<close> calls. \<^verbatim>\<open>flushCommitInfo\<close> and
  \<^verbatim>\<open>flushLatestVersion\<close> panic when marshalling fails; \<^verbatim>\<open>flushPruningHeights\<close>
  writes every height as eight bytes, big-endian.
\<close>

type_synonym Batch = "(DBKey \<times> bytes) list"

definition PutUint64 :: "uint64 \<Rightarrow> bytes" where
  "PutUint64 v = map (\<lambda>i. ucast (drop_bit (8 * (7 - i)) v)) [0..<8]"

definition flushCommitInfo :: "Codec \<Rightarrow> Batch \<Rightarrow> int64 \<Rightarrow> CommitInfo \<Rightarrow> Panic + Batch" where
  "flushCommitInfo C batch version cInfo =
     (case MarshalCommitInfo C cInfo of
        None \<Rightarrow> Inl ''marshal commit info''
      | Some bz \<Rightarrow> Inr (batch @ [(commitInfoKey version, bz)]))"

definition flushLatestVersion :: "Codec \<Rightarrow> Batch \<Rightarrow> int64 \<Rightarrow> Panic + Batch" where
  "flushLatestVersion C batch version =
     (case StdInt64Marshal C version of
        None \<Rightarrow> Inl ''marshal latest version''
      | Some bz \<Rightarrow> Inr (batch @ [(latestVersionKey, bz)]))"

definition flushPruningHeights :: "Batch \<Rightarrow> int64 list \<Rightarrow> Batch" where
  "flushPruningHeights batch hs = batch @ [(pruneHeightsKey, concat (map PutUint64 hs))]"

definition WriteSync :: "DB \<Rightarrow> Batch \<Rightarrow> DB option" where
  "WriteSync d batch =
     (if dbWriteSyncErr d then None
      else Some (d\<lparr>dbData := foldl (\<lambda>f (k, v). f(k := Some v)) (dbData d) batch\<rparr>))"

text \<open>
  \<^verbatim>\<open>flushMetadata\<close> is always called with \<^verbatim>\<open>rs.db\<close>. After the write it logs
  \<^verbatim>\<open>cInfo.CommitID()\<close>, which dereferences \<^verbatim>\<open>cInfo\<close>: a panic when it is nil.
\<close>

definition flushMetadata :: "Codec \<Rightarrow> 's Store \<Rightarrow> int64 \<Rightarrow> CommitInfo option \<Rightarrow> Panic + 's Store" where
  "flushMetadata C rs version cInfo =
     (case (case cInfo of None \<Rightarrow> Inr [] | Some c \<Rightarrow> flushCommitInfo C [] version c) of
        Inl p \<Rightarrow> Inl p
      | Inr batch1 \<Rightarrow>
         (case flushLatestVersion C batch1 version of
            Inl p \<Rightarrow> Inl p
          | Inr batch2 \<Rightarrow>
             (case WriteSync (db rs) (flushPruningHeights batch2 (pruneHeights rs)) of
                None \<Rightarrow> Inl ''error on batch write''
              | Some d \<Rightarrow>
                 (case cInfo of
                    None \<Rightarrow> Inl ''nil pointer dereference''
                  | Some c \<Rightarrow> Inr (rs\<lparr>db := d\<rparr>)))))"

definition getCommitInfo :: "Codec \<Rightarrow> DB \<Rightarrow> int64 \<Rightarrow> Error + CommitInfo" where
  "getCommitInfo C d ver =
     (case dbGetErr d (commitInfoKey ver) of
        Some err \<Rightarrow> Inl (Wrap err ''failed to get commit info'')
      | None \<Rightarrow>
         (case dbData d (commitInfoKey ver) of
            None \<Rightarrow> Inl (ErrorString ''no commit info found'')
          | Some bz \<Rightarrow>
             (case UnmarshalCommitInfo C bz of
                Inl err \<Rightarrow> Inl (Wrap err ''failed unmarshal commit info'')
              | Inr cInfo \<Rightarrow> Inr cInfo)))"

definition GetLatestVersion :: "Codec \<Rightarrow> DB \<Rightarrow> Panic + int64" where
  "GetLatestVersion C d =
     (case dbGetErr d latestVersionKey of
        Some err \<Rightarrow> Inl ''get latest version''
      | None \<Rightarrow>
         (case dbData d latestVersionKey of
            None \<Rightarrow> Inr 0
          | Some bz \<Rightarrow>
             (case StdInt64Unmarshal C bz of
                None \<Rightarrow> Inl ''unmarshal latest version''
              | Some latestVersion \<Rightarrow> Inr latestVersion)))"

text \<open>
  The getter \<^verbatim>\<open>GetVersion\<close> of a \<^verbatim>\<open>CommitInfo\<close> pointer returns 0 on nil.
\<close>

definition GetVersion :: "CommitInfo option \<Rightarrow> int64" where
  "GetVersion c = (case c of None \<Rightarrow> 0 | Some cInfo \<Rightarrow> ciVersion cInfo)"

text \<open>
  Modelled from the spec: the method \<^verbatim>\<open>CommitID\<close> of \<^verbatim>\<open>CommitInfo\<close>, of the
  package \<^verbatim>\<open>types\<close>, which is not among the sources: the pair of the version of
  the commit info and its hash.
\<close>

definition CommitInfo_CommitID :: "Codec \<Rightarrow> CommitInfo \<Rightarrow> CommitID" where
  "CommitInfo_CommitID C cInfo = \<lparr>Version = ciVersion cInfo, Hash = CommitInfoHash C cInfo\<rparr>"

definition LastCommitID :: "Codec \<Rightarrow> 's Store \<Rightarrow> Panic + CommitID" where
  "LastCommitID C rs =
     (case lastCommitInfo rs of
        None \<Rightarrow>
          (case GetLatestVersion C (db rs) of
             Inl p \<Rightarrow> Inl p
           | Inr v \<Rightarrow> Inr \<lparr>Version = v, Hash = []\<rparr>)
      | Some c \<Rightarrow> Inr (CommitInfo_CommitID C c))"

section \<open>Commit and pruning\<close>

text \<open>
  The loop of \<^verbatim>\<open>PruneStores\<close> over the sub-stores: on a store of type
  \<^verbatim>\<open>StoreTypeIAVL\<close> it asserts the dynamic type \<^verbatim>\<open>*iavl.Store\<close> (a panic
  otherwise) and calls \<^verbatim>\<open>DeleteVersions\<close>; an error whose cause is not
  \<^verbatim>\<open>ErrVersionDoesNotExist\<close> is a panic.
\<close>

fun pruneLoop :: "'s SubStoreOps \<Rightarrow> int64 list \<Rightarrow> 's StoreMap \<Rightarrow> Panic + 's StoreMap" where
  "pruneLoop E pruningHeights [] = Inr []"
| "pruneLoop E pruningHeights ((key, store) # rest) =
     (if GetStoreType E store = StoreTypeIAVL then
        (if DynType E store \<noteq> IavlStorePtr then Inl ''interface conversion: store is not *iavl.Store''
         else
           (case DeleteVersions E pruningHeights store of
              (Some err, store') \<Rightarrow>
                (if Cause err \<noteq> ErrVersionDoesNotExist then Inl ''DeleteVersions failed''
                 else (case pruneLoop E pruningHeights rest of
                         Inl p \<Rightarrow> Inl p
                       | Inr rest' \<Rightarrow> Inr ((key, store') # rest')))
            | (None, store') \<Rightarrow>
                (case pruneLoop E pruningHeights rest of
                   Inl p \<Rightarrow> Inl p
                 | Inr rest' \<Rightarrow> Inr ((key, store') # rest'))))
      else
        (case pruneLoop E pruningHeights rest of
           Inl p \<Rightarrow> Inl p
         | Inr rest' \<Rightarrow> Inr ((key, store) # rest')))"

definition PruneStores ::
  "'s SubStoreOps \<Rightarrow> 's Store \<Rightarrow> bool \<Rightarrow> int64 list \<Rightarrow> Panic + 's Store" where
  "PruneStores E rs clearStorePruningHeights pruningHeights0 =
     (let pruningHeights =
            (if clearStorePruningHeights then pruningHeights0 @ pruneHeights rs else pruningHeights0)
      in if length (pruneHeights rs) = 0 then Inr rs
         else
           (case pruneLoop E pruningHeights (stores rs) of
              Inl p \<Rightarrow> Inl p
            | Inr stores' \<Rightarrow>
                (let rs1 = rs\<lparr>stores := stores'\<rparr>;
                     rs2 = (if length pruningHeights > 0
                            then rs1\<lparr>earliestVersion := last pruningHeights\<rparr> else rs1);
                     rs3 = (if clearStorePruningHeights then rs2\<lparr>pruneHeights := []\<rparr> else rs2)
                 in Inr rs3)))"

text \<open>
  \<^verbatim>\<open>Commit\<close>, in the steps of the source. The version and the local
  \<^verbatim>\<open>previousHeight\<close>, which stays 0 outside the branch of a version bump:
\<close>

definition commitVersion :: "'s Store \<Rightarrow> bool \<Rightarrow> int64 \<times> int64" where
  "commitVersion rs bumpVersion =
     (let c = lastCommitInfo rs
      in if GetVersion c = 0 \<and> 1 <s initialVersion rs then (0, initialVersion rs)
         else if bumpVersion then (GetVersion c, GetVersion c + 1)
         else (0, GetVersion c))"

text \<open>The block that adds a height to the list of the heights to prune:\<close>

definition schedulePruneHeight :: "PruningOptions \<Rightarrow> int64 \<Rightarrow> int64 list \<Rightarrow> int64 list" where
  "schedulePruneHeight opts previousHeight hs =
     (if 0 < Interval opts \<and> KeepRecent opts <s previousHeight then
        (let pruneHeight = previousHeight - KeepRecent opts
         in if KeepEvery opts = 0 \<or> int64_rem pruneHeight (KeepEvery opts) \<noteq> 0
            then hs @ [pruneHeight] else hs)
      else hs)"

text \<open>
  The first part of \<^verbatim>\<open>Commit\<close>, up to the end of that block: the version, the
  new commit info and the store.
\<close>

definition commitSchedule :: "'s SubStoreOps \<Rightarrow> 's Store \<Rightarrow> bool \<Rightarrow> int64 \<times> CommitInfo \<times> 's Store" where
  "commitSchedule E rs bumpVersion =
     (let (previousHeight, version) = commitVersion rs bumpVersion;
          (cInfo, stores') = commitStores E version (stores rs) bumpVersion;
          rs1 = rs\<lparr>lastCommitInfo := Some cInfo, stores := stores'\<rparr>;
          rs2 = rs1\<lparr>pruneHeights :=
                  schedulePruneHeight (pruningOpts rs1) previousHeight (pruneHeights rs1)\<rparr>
      in (version, cInfo, rs2))"

text \<open>
  The rest of \<^verbatim>\<open>Commit\<close>: the batch pruning at an interval height, the result,
  and the deferred \<^verbatim>\<open>flushMetadata\<close>, whose arguments are evaluated at the
  \<^verbatim>\<open>defer\<close> statement and which runs when \<^verbatim>\<open>Commit\<close> returns. A panic of the
  pruning or of the flush ends the commit.
\<close>

definition Commit ::
  "'s SubStoreOps \<Rightarrow> Codec \<Rightarrow> 's Store \<Rightarrow> bool \<Rightarrow> Panic + (CommitID \<times> 's Store)" where
  "Commit E C rs bumpVersion =
     (let (version, cInfo, rs2) = commitSchedule E rs bumpVersion
      in case (if 0 < Interval (pruningOpts rs2) \<and> int64_rem version (Interval (pruningOpts rs2)) = 0
               then PruneStores E rs2 True [] else Inr rs2) of
           Inl p \<Rightarrow> Inl p
         | Inr rs3 \<Rightarrow>
             (case lastCommitInfo rs3 of
                None \<Rightarrow> Inl ''nil pointer dereference''
              | Some c \<Rightarrow>
                  (case flushMetadata C rs3 version (Some cInfo) of
                     Inl p \<Rightarrow> Inl p
                   | Inr rs4 \<Rightarrow> Inr (\<lparr>Version = version, Hash = CommitInfoHash C c\<rparr>, rs4))))"

section \<open>Queries\<close>

text \<open>
  \<^verbatim>\<open>GetCommitKVStore\<close> reads \<^verbatim>\<open>rs.stores[key]\<close>; the inter-block cache, which only
  wraps a store, is not modelled. \<^verbatim>\<open>GetStoreByName\<close> goes through \<^verbatim>\<open>keysByName\<close>.
\<close>

definition GetCommitKVStore :: "'s Store \<Rightarrow> StoreKey \<Rightarrow> 's option" where
  "GetCommitKVStore rs key = map_of (stores rs) key"

definition GetStoreByName :: "'s Store \<Rightarrow> string \<Rightarrow> 's option" where
  "GetStoreByName rs name =
     (case map_of (keysByName rs) name of
        None \<Rightarrow> None
      | Some key \<Rightarrow> GetCommitKVStore rs key)"

definition proofsPath :: string where
  "proofsPath = ''proofs''"

definition bytesOfString :: "string \<Rightarrow> bytes" where
  "bytesOfString str = map (\<lambda>c. of_nat (of_char c)) str"

text \<open>
  \<^verbatim>\<open>parsePath\<close>: the path must start with a slash; the rest is split at its first
  slash (\<^verbatim>\<open>strings.SplitN\<close> with 2), and the sub-path keeps that slash.
\<close>

definition parsePath :: "string \<Rightarrow> Error + (string \<times> string)" where
  "parsePath path =
     (case path of
        [] \<Rightarrow> Inl (Wrap ErrUnknownRequest (''invalid path: '' @ path))
      | c # rest \<Rightarrow>
          if c \<noteq> CHR ''/'' then Inl (Wrap ErrUnknownRequest (''invalid path: '' @ path))
          else
            (let storeName = takeWhile (\<lambda>x. x \<noteq> CHR ''/'') rest;
                 paths1 = dropWhile (\<lambda>x. x \<noteq> CHR ''/'') rest
             in Inr (storeName, case paths1 of [] \<Rightarrow> [] | x # sub \<Rightarrow> ''/'' @ sub)))"

definition doProofsQuery :: "Codec \<Rightarrow> 's Store \<Rightarrow> RequestQuery \<Rightarrow> ResponseQuery" where
  "doProofsQuery C rs req =
     (case getCommitInfo C (db rs) (rqHeight req) of
        Inl err \<Rightarrow> QueryResult err
      | Inr commitInfo \<Rightarrow>
          \<lparr>rsError = None, rsHeight = rqHeight req, rsKey = bytesOfString proofsPath,
           rsValue = Hash (CommitInfo_CommitID C commitInfo),
           rsProofOps = Some (map (\<lambda>storeInfo. CommitInfoProofOp C commitInfo (siName storeInfo))
                                (StoreInfos commitInfo))\<rparr>)"

text \<open>
  \<^verbatim>\<open>Query\<close>. The comparison \<^verbatim>\<open>res.Height == c.Version\<close> reads a field of the
  pointer \<^verbatim>\<open>c\<close>: a panic when no commit info has been set.
\<close>

definition Query :: "'s SubStoreOps \<Rightarrow> Codec \<Rightarrow> 's Store \<Rightarrow> RequestQuery \<Rightarrow> Panic + ResponseQuery" where
  "Query E C rs req =
     (case parsePath (rqPath req) of
        Inl err \<Rightarrow> Inr (QueryResult err)
      | Inr (firstPath, subpath) \<Rightarrow>
          if firstPath = proofsPath then Inr (doProofsQuery C rs req)
          else
            (case GetStoreByName rs firstPath of
               None \<Rightarrow> Inr (QueryResult (Wrap ErrUnknownRequest (''no such store: '' @ firstPath)))
             | Some store \<Rightarrow>
                 (case AsQueryable E store of
                    None \<Rightarrow>
                      Inr (QueryResult (Wrap ErrUnknownRequest
                             (''store '' @ firstPath @ '' (type %T) doesn't support queries'')))
                  | Some queryable \<Rightarrow>
                      (let req' = req\<lparr>rqPath := subpath\<rparr>;
                           res = queryable req'
                       in if \<not> rqProve req' \<or> \<not> RequireProof C subpath then Inr res
                          else if rsProofOps res = None \<or> rsProofOps res = Some [] then
                            Inr (QueryResult (Wrap ErrInvalidRequest
                              ''proof is unexpectedly empty; ensure height has not been pruned''))
                          else
                            (case lastCommitInfo rs of
                               None \<Rightarrow> Inl ''nil pointer dereference''
                             | Some c \<Rightarrow>
                                 (case (if rsHeight res = ciVersion c then Inr c
                                        else getCommitInfo C (db rs) (rsHeight res)) of
                                    Inl err \<Rightarrow> Inr (QueryResult err)
                                  | Inr commitInfo \<Rightarrow>
                                      Inr (res\<lparr>rsProofOps :=
                                             map_option (\<lambda>ops. ops @ [CommitInfoProofOp C commitInfo firstPath])
                                               (rsProofOps res)\<rparr>)))))))"

section \<open>Snapshots\<close>

text \<open>
  The writer is an argument of \<^verbatim>\<open>Snapshot\<close>: a state \<open>'w\<close> and \<^verbatim>\<open>WriteMsg\<close>, which
  returns its error, if any, and the writer after the call. The telemetry and
  the log lines of the source have no part in the result and are left out.

  The first loop collects the tree stores by the dynamic type of
  \<^verbatim>\<open>rs.GetCommitKVStore(key)\<close>; a store of another type than the tree, transient
  and memory stores (a nil store too) ends the snapshot with an error.
\<close>

fun collectStores ::
  "'s SubStoreOps \<Rightarrow> 's Store \<Rightarrow> StoreKey list \<Rightarrow> (string \<times> 's) list \<Rightarrow> Error + (string \<times> 's) list" where
  "collectStores E rs [] acc = Inr acc"
| "collectStores E rs (key # keys) acc =
     (case GetCommitKVStore rs key of
        None \<Rightarrow> Inl (Wrap ErrLogic (''don't know how to snapshot store '' @ Name key))
      | Some store \<Rightarrow>
          (case DynType E store of
             IavlStorePtr \<Rightarrow> collectStores E rs keys (acc @ [(Name key, store)])
           | TransientStorePtr \<Rightarrow> collectStores E rs keys acc
           | MemStorePtr \<Rightarrow> collectStores E rs keys acc
           | OtherGoType \<Rightarrow> Inl (Wrap ErrLogic (''don't know how to snapshot store '' @ Name key))))"

text \<open>The item written for a node; \<^verbatim>\<open>int32(node.Height)\<close> extends the sign.\<close>

definition nodeItem :: "ExportNode \<Rightarrow> SnapshotItem" where
  "nodeItem node =
     SnapshotItem_IAVL \<lparr>itKey = enKey node, itValue = enValue node,
                        itHeight = scast (enHeight node), itVersion = enVersion node\<rparr>"

fun writeNodes ::
  "(SnapshotItem \<Rightarrow> 'w \<Rightarrow> Error option \<times> 'w) \<Rightarrow> ExportNode list \<Rightarrow> 'w \<Rightarrow> Error option \<times> 'w" where
  "writeNodes WriteMsg [] w = (None, w)"
| "writeNodes WriteMsg (node # nodes) w =
     (case WriteMsg (nodeItem node) w of
        (Some err, w') \<Rightarrow> (Some err, w')
      | (None, w') \<Rightarrow> writeNodes WriteMsg nodes w')"

text \<open>
  The second loop, over the sorted stores: open the exporter, write the store
  item, write the nodes until the exporter is done or fails.
\<close>

fun exportStores ::
  "'s SubStoreOps \<Rightarrow> (SnapshotItem \<Rightarrow> 'w \<Rightarrow> Error option \<times> 'w) \<Rightarrow> uint64 \<Rightarrow>
     (string \<times> 's) list \<Rightarrow> 'w \<Rightarrow> Error option \<times> 'w" where
  "exportStores E WriteMsg height [] w = (None, w)"
| "exportStores E WriteMsg height ((name, store) # rest) w =
     (case StoreExport E store height of
        Inl err \<Rightarrow> (Some err, w)
      | Inr (nodes, ending) \<Rightarrow>
          (case WriteMsg (SnapshotItem_Store name) w of
             (Some err, w1) \<Rightarrow> (Some err, w1)
           | (None, w1) \<Rightarrow>
               (case writeNodes WriteMsg nodes w1 of
                  (Some err, w2) \<Rightarrow> (Some err, w2)
                | (None, w2) \<Rightarrow>
                    (case ending of
                       ExportFailed err \<Rightarrow> (Some err, w2)
                     | ExportDone \<Rightarrow> exportStores E WriteMsg height rest w2))))"

text \<open>
  \<^verbatim>\<open>Snapshot\<close>. The height is a \<^verbatim>\<open>uint64\<close> and is compared, unsigned, with the
  converted version of the last commit id. \<^verbatim>\<open>sort.Slice\<close> on the names is the
  insertion sort, as in \<open>keysForStoreKeyMap\<close>.
\<close>

definition Snapshot ::
  "'s SubStoreOps \<Rightarrow> Codec \<Rightarrow> 's Store \<Rightarrow> uint64 \<Rightarrow>
     (SnapshotItem \<Rightarrow> 'w \<Rightarrow> Error option \<times> 'w) \<Rightarrow> 'w \<Rightarrow> Panic + (Error option \<times> 'w)" where
  "Snapshot E C rs height WriteMsg w =
     (if height = 0 then Inr (Some (Wrap ErrLogic ''cannot snapshot height 0''), w)
      else
        (case LastCommitID C rs of
           Inl p \<Rightarrow> Inl p
         | Inr cid \<Rightarrow>
             if Version cid < height then
               Inr (Some (Wrap ErrLogic (''cannot snapshot future height '' @ fmt_uint64 height)), w)
             else
               (case collectStores E rs (map fst (stores rs)) [] of
                  Inl err \<Rightarrow> Inr (Some err, w)
                | Inr namedStores \<Rightarrow>
                    Inr (exportStores E WriteMsg height (sort_key fst namedStores) w))))"

text \<open>
  A writer that keeps the messages written to it and never fails, and the
  records of one store in a snapshot: its store item, then its node items.
\<close>

definition appendMsg :: "SnapshotItem \<Rightarrow> SnapshotItem list \<Rightarrow> Error option \<times> SnapshotItem list" where
  "appendMsg item w = (None, w @ [item])"

definition storeRecords :: "string \<Rightarrow> ExportNode list \<Rightarrow> SnapshotItem list" where
  "storeRecords name nodes = SnapshotItem_Store name # map nodeItem nodes"

section \<open>Restoring a snapshot\<close>

text \<open>
  The reader is the list of the results of its \<^verbatim>\<open>ReadMsg\<close> calls, a message or an
  error; after the last one it returns \<^verbatim>\<open>io.EOF\<close>. An open importer is the name of
  its store and the nodes added to it so far.
\<close>

datatype ReadResult = ReadMsg SnapshotItem | ReadErr Error

type_synonym Importer = "string \<times> ExportNode list"

definition MaxInt8 :: int32 where
  "MaxInt8 = 127"

text \<open>
  The node that \<^verbatim>\<open>Restore\<close> builds from a node item: the height is converted to
  \<^verbatim>\<open>int8\<close> (the low eight bits), a nil key becomes the empty key, and a nil value
  becomes the empty value when the converted height is 0.
\<close>

definition restoreNode :: "SnapshotIAVLItem \<Rightarrow> ExportNode" where
  "restoreNode item =
     (let node = \<lparr>enKey = itKey item, enValue = itValue item,
                  enHeight = ucast (itHeight item), enVersion = itVersion item\<rparr>;
          node1 = (if enKey node = None then node\<lparr>enKey := Some []\<rparr> else node);
          node2 = (if enHeight node1 = 0 \<and> enValue node1 = None
                   then node1\<lparr>enValue := Some []\<rparr> else node1)
      in node2)"

text \<open>
  \<^verbatim>\<open>importer.Commit()\<close>: the nodes go into the store that \<^verbatim>\<open>GetStoreByName\<close> gave
  for the name of the importer.
\<close>

definition importerCommit :: "'s SubStoreOps \<Rightarrow> 's Store \<Rightarrow> int64 \<Rightarrow> Importer \<Rightarrow> Error + 's Store" where
  "importerCommit E rs height importer =
     (case map_of (keysByName rs) (fst importer) of
        None \<Rightarrow> Inl (ErrorString ''no store for the importer'')
      | Some key \<Rightarrow>
          (case GetCommitKVStore rs key of
             None \<Rightarrow> Inl (ErrorString ''no store for the importer'')
           | Some store \<Rightarrow>
               (case ImportCommit E store height (snd importer) of
                  Inl err \<Rightarrow> Inl err
                | Inr store' \<Rightarrow>
                    Inr (rs\<lparr>stores := map (\<lambda>(k, s). if k = key then (k, store') else (k, s))
                                         (stores rs)\<rparr>))))"

text \<open>
  The loop of \<^verbatim>\<open>Restore\<close>. It ends with an error and the store as the loop
  leaves it, or with the store, the open importer, the item that ended it (the
  zero item at the end of the input) and the input that is left.
\<close>

fun restoreLoop ::
  "'s SubStoreOps \<Rightarrow> 's Store \<Rightarrow> uint64 \<Rightarrow> Importer option \<Rightarrow> ReadResult list \<Rightarrow>
     (Error \<times> 's Store) + ('s Store \<times> Importer option \<times> SnapshotItem \<times> ReadResult list)" where
  "restoreLoop E rs height importer [] = Inr (rs, importer, NoItem, [])"
| "restoreLoop E rs height importer (ReadErr err # rest) =
     Inl (Wrap err ''invalid protobuf message'', rs)"
| "restoreLoop E rs height importer (ReadMsg (SnapshotItem_Store name) # rest) =
     (case (case importer of
              None \<Rightarrow> Inr rs
            | Some imp \<Rightarrow>
                (case importerCommit E rs height imp of
                   Inl err \<Rightarrow> Inl (Wrap err ''IAVL commit failed'', rs)
                 | Inr rs' \<Rightarrow> Inr rs')) of
        Inl failure \<Rightarrow> Inl failure
      | Inr rs' \<Rightarrow>
          (case GetStoreByName rs' name of
             None \<Rightarrow> Inl (Wrap ErrLogic (''cannot import into non-IAVL store '' @ name), rs')
           | Some store \<Rightarrow>
               if DynType E store \<noteq> IavlStorePtr
               then Inl (Wrap ErrLogic (''cannot import into non-IAVL store '' @ name), rs')
               else
                 (case ImportOpen E store height of
                    Some err \<Rightarrow> Inl (Wrap err ''import failed'', rs')
                  | None \<Rightarrow> restoreLoop E rs' height (Some (name, [])) rest)))"
| "restoreLoop E rs height importer (ReadMsg (SnapshotItem_IAVL item) # rest) =
     (case importer of
        None \<Rightarrow> Inl (Wrap ErrLogic ''received IAVL node item before store item'', rs)
      | Some (name, nodes) \<Rightarrow>
          if MaxInt8 <s itHeight item
          then Inl (Wrap ErrLogic (''node height cannot exceed '' @ fmt_nat 127), rs)
          else
            (case ImportAdd E nodes (restoreNode item) of
               Some err \<Rightarrow> Inl (Wrap err ''IAVL node import failed'', rs)
             | None \<Rightarrow> restoreLoop E rs height (Some (name, nodes @ [restoreNode item])) rest))"
| "restoreLoop E rs height importer (ReadMsg item # rest) = Inr (rs, importer, item, rest)"

text \<open>
  \<^verbatim>\<open>Restore\<close>. After the loop the open importer is committed, the metadata of the
  height is flushed with the commit info of \<^verbatim>\<open>buildCommitInfo\<close>, and the latest
  version is loaded again. \<^verbatim>\<open>LoadLatestVersion\<close> builds the sub-stores with the
  constructors of their packages; it is the argument \<open>reload\<close>. The result is the
  returned item and error, and the store.
\<close>

definition Restore ::
  "'s SubStoreOps \<Rightarrow> Codec \<Rightarrow> ('s Store \<Rightarrow> Error option \<times> 's Store) \<Rightarrow> 's Store \<Rightarrow> uint64 \<Rightarrow>
     ReadResult list \<Rightarrow> Panic + ((SnapshotItem \<times> Error option) \<times> 's Store)" where
  "Restore E C reload rs height reads =
     (case restoreLoop E rs height None reads of
        Inl (err, rs1) \<Rightarrow> Inr ((NoItem, Some err), rs1)
      | Inr (rs1, importer, snapshotItem, rest) \<Rightarrow>
          (case (case importer of
                   None \<Rightarrow> Inr rs1
                 | Some imp \<Rightarrow>
                     (case importerCommit E rs1 height imp of
                        Inl err \<Rightarrow> Inl (Wrap err ''IAVL commit failed'')
                      | Inr rs2 \<Rightarrow> Inr rs2)) of
             Inl err \<Rightarrow> Inr ((NoItem, Some err), rs1)
           | Inr rs2 \<Rightarrow>
               (case flushMetadata C rs2 height (buildCommitInfo E (stores rs2) height) of
                  Inl p \<Rightarrow> Inl p
                | Inr rs3 \<Rightarrow>
                    (case reload rs3 of
                       (err, rs4) \<Rightarrow> Inr ((snapshotItem, err), rs4)))))"

section \<open>The cache multi-store\<close>

text \<open>
  Modelled from the spec: the sub-stores as key-value stores and the cache
  store of the package \<^verbatim>\<open>cachekv\<close>, which are not among the sources. A key-value
  store is a map from keys to values. A cache store over a parent holds the
  writes made to it: for a key, no entry, a value that was set, or the mark of a
  deletion. A read looks at the entry first and at the parent when there is
  none; \<^verbatim>\<open>Write\<close> merges the entries into the parent and empties the cache. The
  parent is changed only by \<^verbatim>\<open>Write\<close>.
\<close>

type_synonym 'k KVStore = "'k \<Rightarrow> bytes option"

type_synonym 'k CacheKV = "'k \<Rightarrow> bytes option option"

definition cachekv_NewStore :: "'k CacheKV" where
  "cachekv_NewStore = (\<lambda>k. None)"

definition cachekv_Get :: "'k CacheKV \<Rightarrow> 'k KVStore \<Rightarrow> 'k \<Rightarrow> bytes option" where
  "cachekv_Get cache parent k = (case cache k of Some entry \<Rightarrow> entry | None \<Rightarrow> parent k)"

definition cachekv_Set :: "'k CacheKV \<Rightarrow> 'k \<Rightarrow> bytes \<Rightarrow> 'k CacheKV" where
  "cachekv_Set cache k v = cache(k := Some (Some v))"

definition cachekv_Delete :: "'k CacheKV \<Rightarrow> 'k \<Rightarrow> 'k CacheKV" where
  "cachekv_Delete cache k = cache(k := Some None)"

definition cachekv_Write :: "'k CacheKV \<Rightarrow> 'k KVStore \<Rightarrow> 'k CacheKV \<times> 'k KVStore" where
  "cachekv_Write cache parent =
     (cachekv_NewStore, (\<lambda>k. case cache k of Some entry \<Rightarrow> entry | None \<Rightarrow> parent k))"

text \<open>
  The cache multi-store of the source: a cache store over the database and one
  cache store for every sub-store of the parent, found by its key. The parent
  of the cache store of a key is the sub-store of the parent multi-store under
  that key. The wrappers for tracing and listening pass every operation on to
  the store they wrap and are left out.
\<close>

record CacheMultiStore =
  cmsDb :: "DBKey CacheKV"
  cmsStores :: "(StoreKey \<times> bytes CacheKV) list"
  cmsKeys :: "(string \<times> StoreKey) list"

definition NewFromKVStore ::
  "(StoreKey \<times> bytes KVStore) list \<Rightarrow> (string \<times> StoreKey) list \<Rightarrow> CacheMultiStore" where
  "NewFromKVStore storeMap keys =
     \<lparr>cmsDb = cachekv_NewStore,
      cmsStores = map (\<lambda>(key, store). (key, cachekv_NewStore)) storeMap,
      cmsKeys = keys\<rparr>"

text \<open>\<^verbatim>\<open>CacheMultiStore\<close> of the root multi-store copies the map of the stores.\<close>

definition CacheMultiStore_of :: "(bytes KVStore) Store \<Rightarrow> CacheMultiStore" where
  "CacheMultiStore_of rs = NewFromKVStore (stores rs) (keysByName rs)"

text \<open>
  \<^verbatim>\<open>GetKVStore\<close> of the cache multi-store panics on a key without a store. A write
  through the branch is a \<^verbatim>\<open>Set\<close> or a \<^verbatim>\<open>Delete\<close> on the store it returns; a read of
  the branch needs the parent.
\<close>

definition cms_GetKVStore :: "CacheMultiStore \<Rightarrow> StoreKey \<Rightarrow> Panic + bytes CacheKV" where
  "cms_GetKVStore cms key =
     (case map_of (cmsStores cms) key of
        None \<Rightarrow> Inl ''kv store with key has not been registered in stores''
      | Some store \<Rightarrow> Inr store)"

definition cms_update :: "CacheMultiStore \<Rightarrow> StoreKey \<Rightarrow> bytes CacheKV \<Rightarrow> CacheMultiStore" where
  "cms_update cms key store =
     cms\<lparr>cmsStores := map (\<lambda>(k, s). if k = key then (k, store) else (k, s)) (cmsStores cms)\<rparr>"

datatype BranchWrite = BranchSet StoreKey bytes bytes | BranchDelete StoreKey bytes

fun branchWrite :: "CacheMultiStore \<Rightarrow> BranchWrite \<Rightarrow> Panic + CacheMultiStore" where
  "branchWrite cms (BranchSet key k v) =
     (case cms_GetKVStore cms key of
        Inl p \<Rightarrow> Inl p
      | Inr store \<Rightarrow> Inr (cms_update cms key (cachekv_Set store k v)))"
| "branchWrite cms (BranchDelete key k) =
     (case cms_GetKVStore cms key of
        Inl p \<Rightarrow> Inl p
      | Inr store \<Rightarrow> Inr (cms_update cms key (cachekv_Delete store k)))"

fun branchWrites :: "CacheMultiStore \<Rightarrow> BranchWrite list \<Rightarrow> Panic + CacheMultiStore" where
  "branchWrites cms [] = Inr cms"
| "branchWrites cms (x # xs) =
     (case branchWrite cms x of Inl p \<Rightarrow> Inl p | Inr cms' \<Rightarrow> branchWrites cms' xs)"

definition parentGet :: "(bytes KVStore) Store \<Rightarrow> StoreKey \<Rightarrow> bytes \<Rightarrow> bytes option" where
  "parentGet rs key k = (case map_of (stores rs) key of None \<Rightarrow> None | Some store \<Rightarrow> store k)"

definition branchGet :: "CacheMultiStore \<Rightarrow> (bytes KVStore) Store \<Rightarrow> StoreKey \<Rightarrow> bytes \<Rightarrow> bytes option" where
  "branchGet cms rs key k =
     (case map_of (cmsStores cms) key of
        None \<Rightarrow> None
      | Some store \<Rightarrow> cachekv_Get store (\<lambda>k'. parentGet rs key k') k)"

text \<open>
  \<^verbatim>\<open>Write\<close> of the cache multi-store: \<^verbatim>\<open>cms.db.Write()\<close>, then \<^verbatim>\<open>store.Write()\<close> for
  every store of the branch, each into the sub-store of the parent under its key
  (the parent multi-store still holds the sub-stores the branch was made from).
\<close>

fun cms_WriteLoop ::
  "(StoreKey \<times> bytes CacheKV) list \<Rightarrow> (StoreKey \<times> bytes KVStore) list \<Rightarrow>
     (StoreKey \<times> bytes CacheKV) list \<times> (StoreKey \<times> bytes KVStore) list" where
  "cms_WriteLoop [] parent = ([], parent)"
| "cms_WriteLoop ((key, store) # rest) parent =
     (let (store', parent') =
            (case map_of parent key of
               None \<Rightarrow> (cachekv_NewStore, parent)
             | Some p \<Rightarrow>
                 (let (c, p') = cachekv_Write store p
                  in (c, map (\<lambda>(k, q). if k = key then (k, p') else (k, q)) parent)));
          (rest', parent'') = cms_WriteLoop rest parent'
      in ((key, store') # rest', parent''))"

definition cms_Write :: "CacheMultiStore \<Rightarrow> (bytes KVStore) Store \<Rightarrow> CacheMultiStore \<times> (bytes KVStore) Store" where
  "cms_Write cms rs =
     (let (dbCache, dbData') = cachekv_Write (cmsDb cms) (dbData (db rs));
          (stores', parent') = cms_WriteLoop (cmsStores cms) (stores rs)
      in (cms\<lparr>cmsDb := dbCache, cmsStores := stores'\<rparr>,
          rs\<lparr>db := (db rs)\<lparr>dbData := dbData'\<rparr>, stores := parent'\<rparr>))"

section \<open>A concrete sub-store for evaluation\<close>

text \<open>
  A small sub-store on which the definitions can be run: its type tags, its last
  commit id, the hash of its working state, the heights deleted from it and the
  nodes of its tree. Committing with a version bump moves to the next version.
\<close>

record TestStore =
  tsType :: StoreType
  tsDyn :: GoType
  tsLast :: CommitID
  tsWorking :: bytes
  tsDeleted :: "int64 list"
  tsNodes :: "ExportNode list"

definition testCommit :: "bool \<Rightarrow> TestStore \<Rightarrow> CommitID \<times> TestStore" where
  "testCommit bumpVersion s =
     (let cid = \<lparr>Version = (if bumpVersion then Version (tsLast s) + 1 else Version (tsLast s)),
                 Hash = tsWorking s\<rparr>
      in (cid, s\<lparr>tsLast := cid\<rparr>))"

text \<open>
  The tree stores answer a query with their working hash as the value, at the
  height asked for (at their last version for the height 0), with one proof
  operation when a proof is asked for and the height has not been deleted.
\<close>

definition testQuery :: "TestStore \<Rightarrow> RequestQuery \<Rightarrow> ResponseQuery" where
  "testQuery s req =
     \<lparr>rsError = None,
      rsHeight = (if rqHeight req = 0 then Version (tsLast s) else rqHeight req),
      rsKey = rqData req, rsValue = tsWorking s,
      rsProofOps =
        (if rqProve req \<and> rqHeight req \<notin> set (tsDeleted s)
         then Some [\<lparr>poType = ''iavl'', poKey = rqData req, poData = tsWorking s\<rparr>]
         else None)\<rparr>"

definition testOps :: "TestStore SubStoreOps" where
  "testOps =
     \<lparr>GetStoreType = tsType, DynType = tsDyn,
      StoreCommit = testCommit, StoreLastCommitID = tsLast,
      DeleteVersions = (\<lambda>hs s. (None, s\<lparr>tsDeleted := tsDeleted s @ hs\<rparr>)),
      StoreExport = (\<lambda>s h. Inr (tsNodes s, ExportDone)),
      ImportOpen = (\<lambda>s h. None),
      ImportAdd = (\<lambda>ns n. None),
      ImportCommit = (\<lambda>s h ns. Inr (s\<lparr>tsNodes := ns\<rparr>)),
      AsQueryable = (\<lambda>s. if tsType s = StoreTypeIAVL then Some (testQuery s) else None)\<rparr>"

definition emptyCommitID :: CommitID where
  "emptyCommitID = \<lparr>Version = 0, Hash = []\<rparr>"

definition iavlStore :: "bytes \<Rightarrow> TestStore" where
  "iavlStore h = \<lparr>tsType = StoreTypeIAVL, tsDyn = IavlStorePtr, tsLast = emptyCommitID, tsWorking = h,
      tsDeleted = [], tsNodes = []\<rparr>"

definition transientStore :: TestStore where
  "transientStore =
     \<lparr>tsType = StoreTypeTransient, tsDyn = TransientStorePtr, tsLast = emptyCommitID, tsWorking = [],
      tsDeleted = [], tsNodes = []\<rparr>"

definition memStore :: TestStore where
  "memStore =
     \<lparr>tsType = StoreTypeMemory, tsDyn = MemStorePtr, tsLast = emptyCommitID, tsWorking = [],
      tsDeleted = [], tsNodes = []\<rparr>"

text \<open>
  A codec on which the definitions can be run: a commit info is marshalled to
  the bytes of its version, a number to its eight bytes.
\<close>

definition testCodec :: Codec where
  "testCodec =
     \<lparr>MarshalCommitInfo = (\<lambda>c. Some (PutUint64 (ciVersion c))),
      UnmarshalCommitInfo = (\<lambda>bz. Inl (ErrorString ''unmarshal'')),
      StdInt64Marshal = (\<lambda>v. Some (PutUint64 v)),
      StdInt64Unmarshal = (\<lambda>bz. None),
      CommitInfoHash = (\<lambda>c. concat (map (Hash \<circ> siCommitId) (StoreInfos c))),
      CommitInfoProofOp = (\<lambda>c name. \<lparr>poType = ''simple'', poKey = map (of_nat \<circ> of_char) name,
                                       poData = PutUint64 (ciVersion c)\<rparr>),
      RequireProof = (\<lambda>subpath. subpath = ''/key'')\<rparr>"

definition emptyDB :: DB where
  "emptyDB = \<lparr>dbData = (\<lambda>k. None), dbGetErr = (\<lambda>k. None), dbWriteSyncErr = False\<rparr>"

definition testStore :: "TestStore StoreMap \<Rightarrow> TestStore Store" where
  "testStore m =
     \<lparr>db = emptyDB, lastCommitInfo = Some \<lparr>ciVersion = 0, StoreInfos = []\<rparr>,
      pruningOpts = \<lparr>KeepRecent = 0, KeepEvery = 0, Interval = 0\<rparr>,
      stores = m, keysByName = map (\<lambda>(k, s). (Name k, k)) m,
      pruneHeights = [], initialVersion = 0, earliestVersion = 0\<rparr>"

text \<open>
  A store at version 3 with one tree store and the pruning options
  \<^verbatim>\<open>KeepRecent = 1\<close>, \<^verbatim>\<open>KeepEvery = 0\<close> and the given interval; the height 1 is
  pending.
\<close>

definition pruningTestStore :: "uint64 \<Rightarrow> TestStore Store" where
  "pruningTestStore interval =
     (testStore [(StoreKey 0 ''a'', iavlStore [1])])
       \<lparr>pruningOpts := \<lparr>KeepRecent = 1, KeepEvery = 0, Interval = interval\<rparr>,
        lastCommitInfo := Some \<lparr>ciVersion = 3, StoreInfos = []\<rparr>,
        pruneHeights := [1]\<rparr>"

section \<open>Properties of the commit info\<close>

lemma commitStoresLoop_stores:
  "snd (commitStoresLoop E b m acc) = map (\<lambda>(k, s). (k, snd (StoreCommit E b s))) m"
  by (induction m arbitrary: acc) (auto simp: Let_def case_prod_beta)


lemma buildStoreInfos_names:
  "set keys \<subseteq> fst ` set storeMap \<Longrightarrow>
   \<exists>infos. buildStoreInfos E storeMap keys acc = Some infos \<and>
     map siName infos =
       map siName acc @
       map Name (filter (\<lambda>k. \<exists>s. map_of storeMap k = Some s \<and> GetStoreType E s \<noteq> StoreTypeTransient) keys)"
proof (induction keys arbitrary: acc)
  case Nil
  then show ?case by simp
next
  case (Cons key keys)
  from Cons.prems have "key \<in> fst ` set storeMap" by simp
  then obtain store where st: "map_of storeMap key = Some store"
    by (metis domD dom_map_of_conv_image_fst)
  from Cons.prems have sub: "set keys \<subseteq> fst ` set storeMap" by simp
  show ?case
  proof (cases "GetStoreType E store = StoreTypeTransient")
    case True
    with st Cons.IH [OF sub, of acc] show ?thesis by auto
  next
    case False
    with st Cons.IH [OF sub, of "acc @ [\<lparr>siName = Name key, siCommitId = StoreLastCommitID E store\<rparr>]"]
    show ?thesis by auto
  qed
qed

lemma buildCommitInfo_defined:
  "\<exists>c. buildCommitInfo E storeMap version = Some c \<and> ciVersion c = version \<and>
     map siName (StoreInfos c) =
       map Name (filter (\<lambda>k. \<exists>s. map_of storeMap k = Some s \<and> GetStoreType E s \<noteq> StoreTypeTransient)
                   (keysForStoreKeyMap storeMap))"
proof -
  have "set (keysForStoreKeyMap storeMap) \<subseteq> fst ` set storeMap"
    by (simp add: keysForStoreKeyMap_def)
  from buildStoreInfos_names [OF this, of E "[]"] show ?thesis
    by (auto simp: buildCommitInfo_def)
qed

lemma sorted_map_filter:
  "sorted (map f xs) \<Longrightarrow> sorted (map f (filter P xs))"
  by (induction xs) auto

lemma buildCommitInfo_sorted:
  "buildCommitInfo E storeMap version = Some c \<Longrightarrow> sorted (map siName (StoreInfos c))"
proof -
  assume a: "buildCommitInfo E storeMap version = Some c"
  have "sorted (map Name (keysForStoreKeyMap storeMap))"
    by (simp add: keysForStoreKeyMap_def)
  with buildCommitInfo_defined [of E storeMap version] a show ?thesis
    by (auto intro: sorted_map_filter)
qed

text \<open>
  Claim C1. The claim asks that the commit info of every commit lists its
  \<^verbatim>\<open>StoreInfo\<close> entries in ascending order of the store names, from
  \<^verbatim>\<open>commitStores\<close> as from \<^verbatim>\<open>buildCommitInfo\<close>. \<^verbatim>\<open>buildCommitInfo\<close> sorts the keys
  (\<open>buildCommitInfo_sorted\<close>); \<^verbatim>\<open>commitStores\<close> ranges over the map directly. On
  a map with the stores \<^verbatim>\<open>a\<close> and \<^verbatim>\<open>b\<close>, visited in the order \<^verbatim>\<open>b\<close>, \<^verbatim>\<open>a\<close>, the
  commit info lists \<^verbatim>\<open>b\<close> before \<^verbatim>\<open>a\<close>.
\<close>

theorem commitStores_map_order_not_sorted:
  "map siName (StoreInfos (fst (commitStores testOps 1
      [(StoreKey 1 ''b'', iavlStore [2]), (StoreKey 0 ''a'', iavlStore [1])] True))) = [''b'', ''a'']
   \<and> \<not> sorted (map siName (StoreInfos (fst (commitStores testOps 1
      [(StoreKey 1 ''b'', iavlStore [2]), (StoreKey 0 ''a'', iavlStore [1])] True))))"
  by (simp add: commitStores_def testOps_def testCommit_def iavlStore_def emptyCommitID_def Let_def)




section \<open>Properties of Commit and of the pruning\<close>

lemmas test_defs = testOps_def testCodec_def testStore_def emptyDB_def testCommit_def iavlStore_def
  memStore_def transientStore_def emptyCommitID_def testQuery_def

lemmas commit_defs = Commit_def commitSchedule_def commitVersion_def commitStores_def
  schedulePruneHeight_def PruneStores_def flushMetadata_def flushCommitInfo_def flushLatestVersion_def
  flushPruningHeights_def WriteSync_def GetVersion_def

lemma not_one_sless_zero [simp]: "\<not> (1 :: int64) <s 0"
  by (simp add: word_sless_alt)

lemma commitSchedule_facts:
  "commitSchedule E rs b = (version, cInfo, rs2) \<Longrightarrow>
     version = snd (commitVersion rs b) \<and> ciVersion cInfo = version \<and> lastCommitInfo rs2 = Some cInfo
     \<and> pruningOpts rs2 = pruningOpts rs
     \<and> pruneHeights rs2 = schedulePruneHeight (pruningOpts rs) (fst (commitVersion rs b)) (pruneHeights rs)
     \<and> stores rs2 = snd (commitStores E version (stores rs) b)"
  by (auto simp: commitSchedule_def commitStores_def Let_def split: prod.splits)

lemma PruneStores_lastCommitInfo:
  "PruneStores E rs clr hs = Inr rs' \<Longrightarrow> lastCommitInfo rs' = lastCommitInfo rs"
  by (auto simp: PruneStores_def Let_def split: if_splits sum.splits)

lemma flushMetadata_fields:
  "flushMetadata C rs v ci = Inr rs' \<Longrightarrow>
     lastCommitInfo rs' = lastCommitInfo rs \<and> pruneHeights rs' = pruneHeights rs \<and> stores rs' = stores rs
     \<and> earliestVersion rs' = earliestVersion rs"
  by (auto simp: flushMetadata_def split: option.splits sum.splits)

text \<open>
  Claim C3. A commit that returns has selected its version as follows: the
  initial version when the last commit info has version 0 and the initial
  version is greater than 1; else the last version plus one when \<^verbatim>\<open>bumpVersion\<close>
  is set; else the last version. The new commit info carries that version. A
  first commit that bumps the version with the initial version 0 has version 1,
  and a first commit with an initial version above 1 has the initial version.
\<close>

theorem Commit_selects_version:
  assumes "Commit E C rs bumpVersion = Inr (cid, rs')"
  shows "Version cid =
           (if GetVersion (lastCommitInfo rs) = 0 \<and> 1 <s initialVersion rs then initialVersion rs
            else if bumpVersion then GetVersion (lastCommitInfo rs) + 1
            else GetVersion (lastCommitInfo rs))
         \<and> GetVersion (lastCommitInfo rs') = Version cid
         \<and> (GetVersion (lastCommitInfo rs) = 0 \<and> initialVersion rs = 0 \<and> bumpVersion \<longrightarrow> Version cid = 1)
         \<and> (GetVersion (lastCommitInfo rs) = 0 \<and> 1 <s initialVersion rs \<longrightarrow> Version cid = initialVersion rs)"
proof -
  obtain version cInfo rs2 where cs: "commitSchedule E rs bumpVersion = (version, cInfo, rs2)"
    by (metis prod_cases3)
  note f = commitSchedule_facts [OF cs]
  from assms cs obtain rs3 where
    p: "(if 0 < Interval (pruningOpts rs2) \<and> int64_rem version (Interval (pruningOpts rs2)) = 0
         then PruneStores E rs2 True [] else Inr rs2) = Inr rs3"
    and fl: "flushMetadata C rs3 version (Some cInfo) = Inr rs'"
    and v: "Version cid = version"
    by (auto simp: Commit_def split: sum.splits option.splits)
  from p have "lastCommitInfo rs3 = lastCommitInfo rs2"
    by (auto split: if_splits dest: PruneStores_lastCommitInfo)
  with flushMetadata_fields [OF fl] f have l: "lastCommitInfo rs' = Some cInfo" by simp
  have ver: "version =
           (if GetVersion (lastCommitInfo rs) = 0 \<and> 1 <s initialVersion rs then initialVersion rs
            else if bumpVersion then GetVersion (lastCommitInfo rs) + 1
            else GetVersion (lastCommitInfo rs))"
    using f by (simp add: commitVersion_def Let_def)
  show ?thesis using ver v l f by (auto simp: GetVersion_def)
qed

theorem Commit_selects_version_witness:
  "(case Commit testOps testCodec (testStore [(StoreKey 0 ''a'', iavlStore [1])]) True of
      Inl p \<Rightarrow> False
    | Inr (cid, rs') \<Rightarrow> Version cid = 1 \<and> GetVersion (lastCommitInfo rs') = 1)"
proof -
  obtain cid rs' where
    c: "Commit testOps testCodec (testStore [(StoreKey 0 ''a'', iavlStore [1])]) True = Inr (cid, rs')"
    by (simp add: commit_defs test_defs Let_def)
  from Commit_selects_version [OF c] have "Version cid = 1 \<and> GetVersion (lastCommitInfo rs') = 1"
    by (simp add: testStore_def GetVersion_def)
  with c show ?thesis by simp
qed

lemma int64_rem_zero_iff:
  assumes "0 \<le> sint a" and "0 < sint b"
  shows "int64_rem a b = 0 \<longleftrightarrow> sint a mod sint b = 0"
proof -
  have b: "sint b < 2 ^ 63" using sint_lt [of b] by simp
  have m: "0 \<le> sint a mod sint b" "sint a mod sint b < sint b"
    using assms by simp_all
  have "int64_rem a b = word_of_int (sint a mod sint b)"
    using assms by (simp add: int64_rem_def smod_mod_positive)
  moreover have "(word_of_int (sint a mod sint b) :: int64) = 0 \<longleftrightarrow> sint a mod sint b = 0"
  proof -
    have d: "\<And>x::int. 0 \<le> x \<Longrightarrow> x < 2 ^ 63 \<Longrightarrow> (2 ^ 64 dvd x) = (x = 0)"
      by (auto dest: zdvd_imp_le)
    from m b have "sint a mod sint b < 2 ^ 63" by linarith
    from d [OF m(1) this] show ?thesis by (simp add: word_of_int_eq_0_iff)
  qed
  ultimately show ?thesis by simp
qed

lemma sint_nonneg_eq_uint:
  fixes k :: int64
  assumes "uint k < 2 ^ 63"
  shows "sint k = uint k"
  using assms by (simp add: sint_uint signed_take_bit_eq_if_positive bit_uint_iff not_le
      take_bit_int_eq_self_iff bit_iff_odd flip: drop_bit_eq_div) 

lemma schedulePruneHeight_int:
  assumes "uint (KeepRecent opts) < 2 ^ 63" and "0 \<le> sint previousHeight"
  shows "(KeepRecent opts <s previousHeight) = (uint (KeepRecent opts) < sint previousHeight)"
    and "KeepRecent opts <s previousHeight \<Longrightarrow>
           sint (previousHeight - KeepRecent opts) = sint previousHeight - uint (KeepRecent opts)"
proof -
  have k: "sint (KeepRecent opts) = uint (KeepRecent opts)"
    using assms(1) by (rule sint_nonneg_eq_uint)
  show 1: "(KeepRecent opts <s previousHeight) = (uint (KeepRecent opts) < sint previousHeight)"
    by (simp add: word_sless_alt k)
  assume "KeepRecent opts <s previousHeight"
  with 1 have lt: "uint (KeepRecent opts) < sint previousHeight" by simp
  have "sint previousHeight < 2 ^ 63" using sint_lt [of previousHeight] by simp
  moreover have "0 \<le> uint (KeepRecent opts)" by simp
  ultimately have "- (2 ^ 63) \<le> sint previousHeight - sint (KeepRecent opts)"
    "sint previousHeight - sint (KeepRecent opts) < 2 ^ 63"
    using k lt by linarith+
  then show "sint (previousHeight - KeepRecent opts) = sint previousHeight - uint (KeepRecent opts)"
    using k by (simp add: sint_word_diff signed_take_bit_int_eq_self)
qed

lemma PruneStores_clear:
  assumes "PruneStores E rs True [] = Inr rs'"
  shows "pruneHeights rs' = []
         \<and> (pruneHeights rs \<noteq> [] \<longrightarrow>
              earliestVersion rs' = last (pruneHeights rs)
              \<and> pruneLoop E (pruneHeights rs) (stores rs) = Inr (stores rs'))
         \<and> (pruneHeights rs = [] \<longrightarrow> rs' = rs)"
  using assms by (auto simp: PruneStores_def Let_def split: sum.splits if_splits)

text \<open>
  Claim C4. For a commit that returns, with a pruning interval above 0. Let
  \<^verbatim>\<open>previousHeight\<close> be the local variable of \<^verbatim>\<open>Commit\<close>: the version of the last
  commit info when the commit bumps the version (and does not start from the
  initial version), and 0 otherwise. The pending list of the commit is the list
  before it with \<^verbatim>\<open>pruneHeight = previousHeight - KeepRecent\<close> appended, exactly
  when \<^verbatim>\<open>int64(KeepRecent) < previousHeight\<close> and either \<^verbatim>\<open>KeepEvery\<close> is 0 or
  \<^verbatim>\<open>pruneHeight % KeepEvery\<close> is not 0, and the list before it in every other
  case. When the committed version is not a multiple of the interval, the
  store holds that pending list after the commit. When it is, the batch pruning
  runs in the same commit: the list of the store is empty after it, and a
  pending list that is not empty was passed to \<^verbatim>\<open>DeleteVersions\<close> on the
  committed stores and its last height is the earliest version.
  \<open>schedulePruneHeight_int\<close> and \<open>int64_rem_zero_iff\<close> read the comparison, the
  difference and the remainder on the integers.
\<close>

theorem Commit_schedules_prune_height:
  assumes "Commit E C rs bumpVersion = Inr (cid, rs')"
    and "0 < Interval (pruningOpts rs)"
  shows "(let lastVersion = GetVersion (lastCommitInfo rs);
              previousHeight =
                (if lastVersion = 0 \<and> 1 <s initialVersion rs then 0
                 else if bumpVersion then lastVersion else 0);
              pruneHeight = previousHeight - KeepRecent (pruningOpts rs);
              pending =
                (if KeepRecent (pruningOpts rs) <s previousHeight \<and>
                    (KeepEvery (pruningOpts rs) = 0 \<or>
                     int64_rem pruneHeight (KeepEvery (pruningOpts rs)) \<noteq> 0)
                 then pruneHeights rs @ [pruneHeight] else pruneHeights rs)
          in if int64_rem (Version cid) (Interval (pruningOpts rs)) \<noteq> 0
             then pruneHeights rs' = pending
             else pruneHeights rs' = []
                  \<and> (pending \<noteq> [] \<longrightarrow>
                       earliestVersion rs' = last pending
                       \<and> pruneLoop E pending
                            (map (\<lambda>(k, s). (k, snd (StoreCommit E bumpVersion s))) (stores rs))
                          = Inr (stores rs')))"
proof -
  obtain version cInfo rs2 where cs: "commitSchedule E rs bumpVersion = (version, cInfo, rs2)"
    by (metis prod_cases3)
  note f = commitSchedule_facts [OF cs]
  from assms cs obtain rs3 where
    p: "(if 0 < Interval (pruningOpts rs2) \<and> int64_rem version (Interval (pruningOpts rs2)) = 0
         then PruneStores E rs2 True [] else Inr rs2) = Inr rs3"
    and fl: "flushMetadata C rs3 version (Some cInfo) = Inr rs'"
    and v: "Version cid = version"
    by (auto simp: Commit_def split: sum.splits option.splits)
  note g = flushMetadata_fields [OF fl]
  have prev: "fst (commitVersion rs bumpVersion) =
      (if GetVersion (lastCommitInfo rs) = 0 \<and> 1 <s initialVersion rs then 0
       else if bumpVersion then GetVersion (lastCommitInfo rs) else 0)"
    by (simp add: commitVersion_def Let_def)
  have st: "stores rs2 = map (\<lambda>(k, s). (k, snd (StoreCommit E bumpVersion s))) (stores rs)"
    using f commitStoresLoop_stores [of E bumpVersion "stores rs" "[]"]
    by (simp add: commitStores_def case_prod_beta)
  have pend: "pruneHeights rs2 =
     (let previousHeight = (if GetVersion (lastCommitInfo rs) = 0 \<and> 1 <s initialVersion rs then 0
                 else if bumpVersion then GetVersion (lastCommitInfo rs) else 0);
          pruneHeight = previousHeight - KeepRecent (pruningOpts rs)
      in if KeepRecent (pruningOpts rs) <s previousHeight \<and>
                    (KeepEvery (pruningOpts rs) = 0 \<or>
                     int64_rem pruneHeight (KeepEvery (pruningOpts rs)) \<noteq> 0)
                 then pruneHeights rs @ [pruneHeight] else pruneHeights rs)"
    using f assms(2) unfolding prev by (simp add: schedulePruneHeight_def Let_def)
  show ?thesis
  proof (cases "int64_rem version (Interval (pruningOpts rs)) = 0")
    case False
    with p f have "rs3 = rs2" by simp
    with g pend False v show ?thesis by (simp add: Let_def)
  next
    case True
    with p f assms(2) have "PruneStores E rs2 True [] = Inr rs3" by simp
    from PruneStores_clear [OF this] g st pend True v show ?thesis
      by (simp add: Let_def)
  qed
qed


theorem Commit_schedules_prune_height_witness:
  "(case Commit testOps testCodec (pruningTestStore 10) True of
      Inl p \<Rightarrow> False
    | Inr (cid, rs') \<Rightarrow> Version cid = 4 \<and> pruneHeights rs' = [1, 2])
   \<and> (case Commit testOps testCodec (pruningTestStore 10) False of
      Inl p \<Rightarrow> False
    | Inr (cid, rs') \<Rightarrow> Version cid = 3 \<and> pruneHeights rs' = [1])
   \<and> (case Commit testOps testCodec (pruningTestStore 2) True of
      Inl p \<Rightarrow> False
    | Inr (cid, rs') \<Rightarrow>
        Version cid = 4 \<and> pruneHeights rs' = [] \<and> earliestVersion rs' = 2
        \<and> map (tsDeleted \<circ> snd) (stores rs') = [[1, 2]])"
proof -
  have i: "0 < Interval (pruningOpts (pruningTestStore 10))" "0 < Interval (pruningOpts (pruningTestStore 2))"
    by (simp_all add: pruningTestStore_def testStore_def)
  obtain cid1 rs1 where c1: "Commit testOps testCodec (pruningTestStore 10) True = Inr (cid1, rs1)"
    and v1: "Version cid1 = 4"
    by (simp add: commit_defs test_defs pruningTestStore_def Let_def int64_rem_def word_sless_alt)
  obtain cid2 rs2 where c2: "Commit testOps testCodec (pruningTestStore 10) False = Inr (cid2, rs2)"
    and v2: "Version cid2 = 3"
    by (simp add: commit_defs test_defs pruningTestStore_def Let_def int64_rem_def word_sless_alt)
  obtain cid3 rs3 where c3: "Commit testOps testCodec (pruningTestStore 2) True = Inr (cid3, rs3)"
    and v3: "Version cid3 = 4"
    by (simp add: commit_defs test_defs pruningTestStore_def Let_def int64_rem_def word_sless_alt)
  from Commit_schedules_prune_height [OF c1 i(1)] v1 have r1: "pruneHeights rs1 = [1, 2]"
    by (simp add: pruningTestStore_def testStore_def GetVersion_def Let_def int64_rem_def word_sless_alt)
  from Commit_schedules_prune_height [OF c2 i(1)] v2 have r2: "pruneHeights rs2 = [1]"
    by (simp add: pruningTestStore_def testStore_def GetVersion_def Let_def int64_rem_def word_sless_alt)
  from Commit_schedules_prune_height [OF c3 i(2)] v3 have r3:
    "pruneHeights rs3 = [] \<and> earliestVersion rs3 = 2 \<and>
     [(StoreKey 0 ''a'', \<lparr>tsType = StoreTypeIAVL, tsDyn = IavlStorePtr,
         tsLast = \<lparr>Version = 1, Hash = [1]\<rparr>, tsWorking = [1],
         tsDeleted = [1, 2], tsNodes = []\<rparr>)] = stores rs3"
    by (simp add: pruningTestStore_def testStore_def GetVersion_def Let_def int64_rem_def word_sless_alt
        test_defs)
  from r3 [THEN conjunct2, THEN conjunct2, symmetric]
  have r4: "map (tsDeleted \<circ> snd) (stores rs3) = [[1, 2]]" by simp
  from c1 c2 c3 v1 v2 v3 r1 r2 r3 r4 show ?thesis by simp
qed

lemma pruneLoop_ok:
  assumes "\<forall>(k, s) \<in> set m. GetStoreType E s = StoreTypeIAVL \<longrightarrow>
             DynType E s = IavlStorePtr \<and>
             (\<forall>err. fst (DeleteVersions E hs s) = Some err \<longrightarrow> Cause err = ErrVersionDoesNotExist)"
  shows "pruneLoop E hs m =
           Inr (map (\<lambda>(k, s). (k, if GetStoreType E s = StoreTypeIAVL
                                   then snd (DeleteVersions E hs s) else s)) m)"
  using assms
  by (induction m) (auto split: prod.splits option.splits)

lemma pruneLoop_fatal:
  assumes "(k, s) \<in> set m" and "GetStoreType E s = StoreTypeIAVL"
    and "fst (DeleteVersions E hs s) = Some err" and "Cause err \<noteq> ErrVersionDoesNotExist"
  shows "\<exists>p. pruneLoop E hs m = Inl p"
  using assms
  by (induction m) (auto split: prod.splits option.splits sum.splits)

lemma PruneStores_pending:
  assumes "pruneHeights rs \<noteq> []"
    and "pruneLoop E (if clr then hs0 @ pruneHeights rs else hs0) (stores rs) = Inr m'"
  shows "\<exists>rs'. PruneStores E rs clr hs0 = Inr rs' \<and> stores rs' = m'
           \<and> pruneHeights rs' = (if clr then [] else pruneHeights rs)
           \<and> earliestVersion rs' =
               (if clr then last (pruneHeights rs)
                else if hs0 = [] then earliestVersion rs else last hs0)"
  using assms by (auto simp: PruneStores_def Let_def)

lemma last_is_Max:
  fixes xs :: "int list"
  shows "sorted xs \<Longrightarrow> xs \<noteq> [] \<Longrightarrow> last xs = Max (set xs)"
  by (induction xs) (auto simp: max_def Max_insert2 intro!: antisym)

text \<open>
  Claim C5. The claim asks that \<^verbatim>\<open>PruneStores\<close> calls \<^verbatim>\<open>DeleteVersions\<close> with the
  heights on every tree store also when the caller supplies heights and the
  pending list of the store is empty. The source returns early on
  \<^verbatim>\<open>len(rs.pruneHeights) == 0\<close>: with the heights \<^verbatim>\<open>[5]\<close> of the caller and an
  empty pending list no version is deleted and the earliest version stays,
  with and without \<^verbatim>\<open>clearStorePruningHeights\<close>. With a pending list that is not
  empty the function does what the claim says (\<open>PruneStores_pending\<close>,
  \<open>pruneLoop_ok\<close>, \<open>pruneLoop_fatal\<close>).
\<close>

theorem PruneStores_drops_caller_heights:
  "PruneStores testOps (testStore [(StoreKey 0 ''a'', iavlStore [1])]) False [5]
     = Inr (testStore [(StoreKey 0 ''a'', iavlStore [1])])
   \<and> PruneStores testOps (testStore [(StoreKey 0 ''a'', iavlStore [1])]) True [5]
     = Inr (testStore [(StoreKey 0 ''a'', iavlStore [1])])
   \<and> map (tsDeleted \<circ> snd) (stores (testStore [(StoreKey 0 ''a'', iavlStore [1])])) = [[]]
   \<and> earliestVersion (testStore [(StoreKey 0 ''a'', iavlStore [1])]) = 0"
  by (simp add: PruneStores_def testStore_def iavlStore_def)


section \<open>Properties of the queries\<close>

lemma takeWhile_until:
  "c \<notin> set xs \<Longrightarrow> ys = [] \<or> hd ys = c \<Longrightarrow> takeWhile (\<lambda>x. x \<noteq> c) (xs @ ys) = xs"
proof (induction xs)
  case Nil
  then show ?case by (cases ys) simp_all
next
  case (Cons a xs)
  then show ?case by auto
qed

lemma dropWhile_until:
  "c \<notin> set xs \<Longrightarrow> ys = [] \<or> hd ys = c \<Longrightarrow> dropWhile (\<lambda>x. x \<noteq> c) (xs @ ys) = ys"
proof (induction xs)
  case Nil
  then show ?case by (cases ys) simp_all
next
  case (Cons a xs)
  then show ?case by auto
qed

lemma parsePath_split:
  assumes "CHR ''/'' \<notin> set firstPath" and "subpath = [] \<or> hd subpath = CHR ''/''"
  shows "parsePath (CHR ''/'' # firstPath @ subpath) = Inr (firstPath, subpath)"
proof -
  have t: "takeWhile (\<lambda>x. x \<noteq> CHR ''/'') (firstPath @ subpath) = firstPath"
    by (rule takeWhile_until [OF assms])
  have d: "dropWhile (\<lambda>x. x \<noteq> CHR ''/'') (firstPath @ subpath) = subpath"
    by (rule dropWhile_until [OF assms])
  have e: "(case subpath of [] \<Rightarrow> [] | x # sub \<Rightarrow> ''/'' @ sub) = subpath"
    using assms(2) by (cases subpath) simp_all
  show ?thesis
    by (simp add: parsePath_def Let_def t d e)
qed


text \<open>
  Claim C6. A query with the path \<^verbatim>\<open>/<store>[/<subpath>]\<close> for a mounted,
  queryable store other than \<^verbatim>\<open>proofs\<close>, with \<^verbatim>\<open>Prove\<close> set and a sub-path that
  requires a proof. When the proof operations of the sub-store's response are
  nil or empty, the result is the invalid-request error ``proof is unexpectedly
  empty; ensure height has not been pruned''. Otherwise, when the height of the
  response is the version of the cached last commit info, the result is the
  response with the proof operation of the store name in that commit info
  appended as the last element; when it is another height, the commit info is
  the one stored under \<^verbatim>\<open>s/<height>\<close> in the database, and the result is the
  response with its proof operation appended last, or the error of the load when
  the read, the entry or its decoding fails.
\<close>

theorem Query_proof_composition:
  assumes path: "rqPath req = CHR ''/'' # firstPath @ subpath"
    "CHR ''/'' \<notin> set firstPath" "subpath = [] \<or> hd subpath = CHR ''/''"
    and "firstPath \<noteq> ''proofs''"
    and "map_of (keysByName rs) firstPath = Some key" and "map_of (stores rs) key = Some store"
    and "AsQueryable E store = Some queryable"
    and "rqProve req" and "RequireProof C subpath"
    and res: "res = queryable (req\<lparr>rqPath := subpath\<rparr>)"
  shows
    "(rsProofOps res = None \<or> rsProofOps res = Some [] \<longrightarrow>
        Query E C rs req =
          Inr \<lparr>rsError = Some (Wrap ErrInvalidRequest
                   ''proof is unexpectedly empty; ensure height has not been pruned''),
               rsHeight = 0, rsKey = [], rsValue = [], rsProofOps = None\<rparr>)
     \<and> (\<forall>ops c. rsProofOps res = Some ops \<and> ops \<noteq> [] \<and> lastCommitInfo rs = Some c \<longrightarrow>
          (rsHeight res = ciVersion c \<longrightarrow>
             Query E C rs req = Inr (res\<lparr>rsProofOps := Some (ops @ [CommitInfoProofOp C c firstPath])\<rparr>))
        \<and> (rsHeight res \<noteq> ciVersion c \<longrightarrow>
             (\<forall>bz commitInfo.
                 dbGetErr (db rs) (commitInfoKey (rsHeight res)) = None \<and>
                 dbData (db rs) (commitInfoKey (rsHeight res)) = Some bz \<and>
                 UnmarshalCommitInfo C bz = Inr commitInfo \<longrightarrow>
                 Query E C rs req =
                   Inr (res\<lparr>rsProofOps := Some (ops @ [CommitInfoProofOp C commitInfo firstPath])\<rparr>))
           \<and> ((dbGetErr (db rs) (commitInfoKey (rsHeight res)) \<noteq> None \<or>
                dbData (db rs) (commitInfoKey (rsHeight res)) = None \<or>
                (\<exists>bz. dbData (db rs) (commitInfoKey (rsHeight res)) = Some bz \<and>
                      isl (UnmarshalCommitInfo C bz))) \<longrightarrow>
               (\<exists>err. Query E C rs req = Inr (QueryResult err) \<and>
                      getCommitInfo C (db rs) (rsHeight res) = Inl err))))"
proof -
  have p: "parsePath (rqPath req) = Inr (firstPath, subpath)"
    unfolding path(1) using path(2,3) by (rule parsePath_split)
  have g: "GetStoreByName rs firstPath = Some store"
    using assms by (simp add: GetStoreByName_def GetCommitKVStore_def)
  have q: "Query E C rs req =
     (if rsProofOps res = None \<or> rsProofOps res = Some [] then
        Inr (QueryResult (Wrap ErrInvalidRequest
               ''proof is unexpectedly empty; ensure height has not been pruned''))
      else
        (case lastCommitInfo rs of
           None \<Rightarrow> Inl ''nil pointer dereference''
         | Some c \<Rightarrow>
             (case (if rsHeight res = ciVersion c then Inr c
                    else getCommitInfo C (db rs) (rsHeight res)) of
                Inl err \<Rightarrow> Inr (QueryResult err)
              | Inr commitInfo \<Rightarrow>
                  Inr (res\<lparr>rsProofOps :=
                         map_option (\<lambda>ops. ops @ [CommitInfoProofOp C commitInfo firstPath])
                           (rsProofOps res)\<rparr>))))"
    using p g assms(4,7-9) unfolding res by (simp add: Query_def Let_def proofsPath_def)
  have 1: "rsProofOps res = None \<or> rsProofOps res = Some [] \<longrightarrow>
        Query E C rs req =
          Inr \<lparr>rsError = Some (Wrap ErrInvalidRequest
                   ''proof is unexpectedly empty; ensure height has not been pruned''),
               rsHeight = 0, rsKey = [], rsValue = [], rsProofOps = None\<rparr>"
    unfolding q by (simp add: QueryResult_def)
  have 2: "Query E C rs req = Inr (res\<lparr>rsProofOps := Some (ops @ [CommitInfoProofOp C c firstPath])\<rparr>)"
    if "rsProofOps res = Some ops" "ops \<noteq> []" "lastCommitInfo rs = Some c" "rsHeight res = ciVersion c"
    for ops c
    unfolding q using that by simp
  have 3: "Query E C rs req =
             Inr (res\<lparr>rsProofOps := Some (ops @ [CommitInfoProofOp C commitInfo firstPath])\<rparr>)"
    if "rsProofOps res = Some ops" "ops \<noteq> []" "lastCommitInfo rs = Some c" "rsHeight res \<noteq> ciVersion c"
      "dbGetErr (db rs) (commitInfoKey (rsHeight res)) = None"
      "dbData (db rs) (commitInfoKey (rsHeight res)) = Some bz"
      "UnmarshalCommitInfo C bz = Inr commitInfo"
    for ops c bz commitInfo
    unfolding q using that by (simp add: getCommitInfo_def)
  have 4: "\<exists>err. Query E C rs req = Inr (QueryResult err) \<and>
                 getCommitInfo C (db rs) (rsHeight res) = Inl err"
    if "rsProofOps res = Some ops" "ops \<noteq> []" "lastCommitInfo rs = Some c" "rsHeight res \<noteq> ciVersion c"
      "dbGetErr (db rs) (commitInfoKey (rsHeight res)) \<noteq> None \<or>
       dbData (db rs) (commitInfoKey (rsHeight res)) = None \<or>
       (\<exists>bz. dbData (db rs) (commitInfoKey (rsHeight res)) = Some bz \<and>
             isl (UnmarshalCommitInfo C bz))"
    for ops c
  proof -
    from that(5) have "\<exists>err. getCommitInfo C (db rs) (rsHeight res) = Inl err"
      by (cases "dbGetErr (db rs) (commitInfoKey (rsHeight res))")
         (auto simp: getCommitInfo_def isl_def split: option.splits sum.splits)
    then obtain err where "getCommitInfo C (db rs) (rsHeight res) = Inl err" ..
    then show ?thesis unfolding q using that(1-4) by simp
  qed
  show ?thesis
  proof (intro conjI allI impI; (elim conjE)?)
    assume "rsProofOps res = None \<or> rsProofOps res = Some []"
    with 1 show "Query E C rs req =
          Inr \<lparr>rsError = Some (Wrap ErrInvalidRequest
                   ''proof is unexpectedly empty; ensure height has not been pruned''),
               rsHeight = 0, rsKey = [], rsValue = [], rsProofOps = None\<rparr>" by simp
  next
    fix ops c
    assume a: "rsProofOps res = Some ops" "ops \<noteq> []" "lastCommitInfo rs = Some c"
      "rsHeight res = ciVersion c"
    show "Query E C rs req = Inr (res\<lparr>rsProofOps := Some (ops @ [CommitInfoProofOp C c firstPath])\<rparr>)"
      by (rule 2 [OF a])
  next
    fix ops c bz commitInfo
    assume a: "rsProofOps res = Some ops" "ops \<noteq> []" "lastCommitInfo rs = Some c"
      "rsHeight res \<noteq> ciVersion c"
      "dbGetErr (db rs) (commitInfoKey (rsHeight res)) = None"
      "dbData (db rs) (commitInfoKey (rsHeight res)) = Some bz"
      "UnmarshalCommitInfo C bz = Inr commitInfo"
    show "Query E C rs req =
             Inr (res\<lparr>rsProofOps := Some (ops @ [CommitInfoProofOp C commitInfo firstPath])\<rparr>)"
      by (rule 3 [OF a])
  next
    fix ops c
    assume a: "rsProofOps res = Some ops" "ops \<noteq> []" "lastCommitInfo rs = Some c"
      "rsHeight res \<noteq> ciVersion c"
      "dbGetErr (db rs) (commitInfoKey (rsHeight res)) \<noteq> None \<or>
       dbData (db rs) (commitInfoKey (rsHeight res)) = None \<or>
       (\<exists>bz. dbData (db rs) (commitInfoKey (rsHeight res)) = Some bz \<and>
             isl (UnmarshalCommitInfo C bz))"
    show "\<exists>err. Query E C rs req = Inr (QueryResult err) \<and>
                 getCommitInfo C (db rs) (rsHeight res) = Inl err"
      by (rule 4 [OF a])
  qed
qed


theorem Query_proof_composition_witness:
  "Query testOps testCodec (testStore [(StoreKey 0 ''a'', iavlStore [7])])
      \<lparr>rqPath = ''/a/key'', rqData = [1], rqHeight = 0, rqProve = True\<rparr>
   = Inr \<lparr>rsError = None, rsHeight = 0, rsKey = [1], rsValue = [7],
          rsProofOps = Some [\<lparr>poType = ''iavl'', poKey = [1], poData = [7]\<rparr>,
                             CommitInfoProofOp testCodec \<lparr>ciVersion = 0, StoreInfos = []\<rparr> ''a'']\<rparr>"
proof -
  let ?rs = "testStore [(StoreKey 0 ''a'', iavlStore [7])]"
  let ?req = "\<lparr>rqPath = ''/a/key'', rqData = [1], rqHeight = 0, rqProve = True\<rparr>"
  let ?res = "testQuery (iavlStore [7]) (?req\<lparr>rqPath := ''/key''\<rparr>)"
  have 1: "rqPath ?req = CHR ''/'' # ''a'' @ ''/key''" by simp
  have 2: "CHR ''/'' \<notin> set ''a''" by simp
  have 3: "''/key'' = [] \<or> hd ''/key'' = CHR ''/''" by simp
  have 4: "''a'' \<noteq> ''proofs''" by simp
  have 5: "map_of (keysByName ?rs) ''a'' = Some (StoreKey 0 ''a'')" by (simp add: testStore_def)
  have 6: "map_of (stores ?rs) (StoreKey 0 ''a'') = Some (iavlStore [7])" by (simp add: testStore_def)
  have 7: "AsQueryable testOps (iavlStore [7]) = Some (testQuery (iavlStore [7]))"
    by (simp add: testOps_def iavlStore_def)
  have 8: "rqProve ?req" by simp
  have 9: "RequireProof testCodec ''/key''" by (simp add: testCodec_def)
  have r: "?res = \<lparr>rsError = None, rsHeight = 0, rsKey = [1], rsValue = [7],
          rsProofOps = Some [\<lparr>poType = ''iavl'', poKey = [1], poData = [7]\<rparr>]\<rparr>"
    by (simp add: testQuery_def iavlStore_def emptyCommitID_def)
  have l: "lastCommitInfo ?rs = Some \<lparr>ciVersion = 0, StoreInfos = []\<rparr>" by (simp add: testStore_def)
  from Query_proof_composition [OF 1 2 3 4 5 6 7 8 9 refl] r l show ?thesis
    by simp
qed

end
